theory Spec2Isabelle
  imports Main "HOL-Library.Word" "HOL-Library.Char_ord" "HOL-Library.List_Lexorder"
begin

section \<open>Ordered B-tree map (ordered/btree)\<close>

subsection \<open>LinearSearchBase and LinearSearchMap: the keys and values of one node\<close>

text \<open>
  A node implementation keeps \<open>size_\<close> keys in \<open>keys_\<close> and the associated values at the
  same indices of \<open>values_\<close>. The model is the list of the \<open>size_\<close> pairs
  \<open>(keys_[i], values_[i])\<close>.
\<close>

type_synonym ('k, 'v) impl = "('k \<times> 'v) list"

text \<open>\<open>LinearSearchBase::insert_key\<close>: the index at which the scan
  \<open>while(i < size_ && keys_[i] < key) ++i\<close> stops.\<close>

definition insert_key :: "'k::linorder \<Rightarrow> 'k list \<Rightarrow> nat" where
  "insert_key key ks = length (takeWhile (\<lambda>x. x < key) ks)"

text \<open>\<open>LinearSearchMap::insert\<close>: keys and values right of the index move up by one.\<close>

definition ls_insert :: "'k::linorder \<Rightarrow> 'v \<Rightarrow> ('k, 'v) impl \<Rightarrow> ('k, 'v) impl" where
  "ls_insert key val kvs =
     (let i = insert_key key (map fst kvs)
      in take i kvs @ (key, val) # drop i kvs)"

text \<open>\<open>LinearSearchBase::erase_key\<close>: the first index holding the key, if any.\<close>

fun erase_key :: "'k \<Rightarrow> 'k list \<Rightarrow> nat option" where
  "erase_key key [] = None"
| "erase_key key (x # xs) =
     (if x = key then Some 0
      else (case erase_key key xs of None \<Rightarrow> None | Some i \<Rightarrow> Some (Suc i)))"

text \<open>\<open>LinearSearchMap::erase(key, value)\<close>: \<open>None\<close> is the result \<open>false\<close>; otherwise the
  value that was stored with the key and the remaining pairs.\<close>

definition ls_erase :: "'k \<Rightarrow> ('k, 'v) impl \<Rightarrow> ('v \<times> ('k, 'v) impl) option" where
  "ls_erase key kvs =
     (case erase_key key (map fst kvs) of
        None \<Rightarrow> None
      | Some i \<Rightarrow> Some (snd (kvs ! i), take i kvs @ drop (Suc i) kvs))"

text \<open>\<open>LinearSearchMap::erase(key)\<close>, whose callers in the tree ignore the result.\<close>

definition ls_erase_discard :: "'k \<Rightarrow> ('k, 'v) impl \<Rightarrow> ('k, 'v) impl" where
  "ls_erase_discard key kvs = (case ls_erase key kvs of None \<Rightarrow> kvs | Some (v, kvs') \<Rightarrow> kvs')"

text \<open>\<open>LinearSearchBase::predecessor\<close> and \<open>successor\<close>: a \<open>LocalQueryResult\<close> is
  \<open>None\<close> (\<open>exists = false\<close>) or \<open>Some pos\<close>.\<close>

definition ls_predecessor :: "'k::linorder \<Rightarrow> 'k list \<Rightarrow> nat option" where
  "ls_predecessor x ks =
     (if ks = [] then None
      else if x < hd ks then None
      else if x \<ge> last ks then Some (length ks - 1)
      else Some (length (takeWhile (\<lambda>k. k \<le> x) (tl ks))))"

definition ls_successor :: "'k::linorder \<Rightarrow> 'k list \<Rightarrow> nat option" where
  "ls_successor x ks =
     (if ks = [] then None
      else if x \<le> hd ks then Some 0
      else if x > last ks then None
      else Some (Suc (length (takeWhile (\<lambda>k. k < x) (tl ks)))))"

subsection \<open>BTree::Node\<close>

text \<open>
  A node owns its node implementation and the array of its \<open>num_children_\<close> children;
  a leaf has none (\<open>children_ == nullptr\<close>). Operations of the source that mutate a node in
  place return the new node here. A result \<open>None\<close> of an operation means that the source
  fails one of its assertions or reads an array outside the part it has filled.
\<close>

datatype ('k, 'v) node = Node (impl: "('k, 'v) impl") (children: "('k, 'v) node list")

definition is_leaf :: "('k, 'v) node \<Rightarrow> bool" where
  "is_leaf n = (children n = [])"

definition node_keys :: "('k, 'v) node \<Rightarrow> 'k list" where
  "node_keys n = map fst (impl n)"

definition node_size :: "('k, 'v) node \<Rightarrow> nat" where
  "node_size n = length (impl n)"

text \<open>The constants of \<open>BTree\<close>, for a node capacity \<open>cap = degree_ - 1\<close>.\<close>

definition split_right :: "nat \<Rightarrow> nat" where
  "split_right cap = cap div 2"

definition split_mid :: "nat \<Rightarrow> nat" where
  "split_mid cap = split_right cap - 1"

definition deletion_threshold :: "nat \<Rightarrow> nat" where
  "deletion_threshold cap = (cap + 1) div 2"

text \<open>The static assertions of \<open>BTree\<close> on \<open>degree_ = cap + 1\<close>: odd, above 1, below 65536.\<close>

definition valid_capacity :: "nat \<Rightarrow> bool" where
  "valid_capacity cap = (1 < cap + 1 \<and> cap + 1 < 65536 \<and> (cap + 1) mod 2 = 1)"

definition is_full :: "nat \<Rightarrow> ('k, 'v) node \<Rightarrow> bool" where
  "is_full cap n = (node_size n = cap)"

fun height :: "('k, 'v) node \<Rightarrow> nat" where
  "height (Node kvs cs) = Suc (foldr max (map height cs) 0)"

text \<open>\<open>Node::insert_child\<close> and \<open>Node::erase_child\<close> on the child array.\<close>

definition insert_child :: "nat \<Rightarrow> 'a \<Rightarrow> 'a list \<Rightarrow> 'a list" where
  "insert_child i c cs = take i cs @ c # drop i cs"

definition erase_child :: "nat \<Rightarrow> 'a list \<Rightarrow> 'a list" where
  "erase_child i cs = take i cs @ drop (Suc i) cs"


text \<open>
  \<open>Node::split_child(i)\<close>. The upper \<open>split_right_\<close> keys of the full child \<open>y\<close> are inserted
  into the new node \<open>z\<close> and erased from \<open>y\<close> by key, then the middle key \<open>m\<close> is erased from
  \<open>y\<close>; a non-leaf \<open>y\<close> hands its children \<open>split_right_ .. node_capacity\<close> to \<open>z\<close>; \<open>m\<close>
  goes into this node and \<open>z\<close> becomes child \<open>i + 1\<close>. The closing assertions of the source
  are the last guard.
\<close>

definition split_child :: "nat \<Rightarrow> ('k::linorder, 'v) node \<Rightarrow> nat \<Rightarrow> ('k, 'v) node option" where
  "split_child cap n i =
     (if is_full cap n \<or> \<not> i < length (children n) then None
      else
        let y = children n ! i;
            sr = split_right cap;
            m = fst (impl y ! split_mid cap);
            moved = take sr (drop sr (impl y));
            z_impl = foldl (\<lambda>zi kv. ls_insert (fst kv) (snd kv) zi) [] moved;
            y_impl = foldl (\<lambda>yi kv. ls_erase_discard (fst kv) yi) (impl y) moved
        in if \<not> is_full cap y then None
           else (case ls_erase m y_impl of
                   None \<Rightarrow> None
                 | Some (value_m, y_impl') \<Rightarrow>
                     if \<not> is_leaf y \<and> length (children y) < cap + 1 then None
                     else
                       let z_children = (if is_leaf y then [] else take (cap + 1 - sr) (drop sr (children y)));
                           y_children = (if is_leaf y then [] else take (length (children y) - (sr + 1)) (children y));
                           y' = Node y_impl' y_children;
                           z = Node z_impl z_children
                       in if length z_impl = sr \<and> length y_impl' = split_mid cap
                             \<and> (\<not> is_leaf y \<longrightarrow> length z_children = sr + 1 \<and> length y_children = split_mid cap + 1)
                          then Some (Node (ls_insert m value_m (impl n))
                                          (insert_child (i + 1) z ((children n)[i := y'])))
                          else None))"

text \<open>
  \<open>Node::insert\<close>, the part before the recursive call: the node after the split of a full
  child, and the index of the child to descend into.
\<close>

definition insert_descend :: "nat \<Rightarrow> ('k::linorder, 'v) node \<Rightarrow> 'k \<Rightarrow> (('k, 'v) node \<times> nat) option" where
  "insert_descend cap n key =
     (let i = (case ls_predecessor key (node_keys n) of Some pos \<Rightarrow> pos + 1 | None \<Rightarrow> 0)
      in if \<not> i < length (children n) then None
         else if is_full cap (children n ! i) then
           (case split_child cap n i of
              None \<Rightarrow> None
            | Some n' \<Rightarrow>
                let i' = (if key > fst (impl n' ! i) then i + 1 else i)
                in if i' < length (children n') then Some (n', i') else None)
         else Some (n, i))"

lemma foldr_max_ge: "x \<in> set xs \<Longrightarrow> x \<le> foldr max xs (0::nat)"
  by (induction xs) (auto simp: max_def)

lemma foldr_max_le: "(\<And>x. x \<in> set xs \<Longrightarrow> x \<le> b) \<Longrightarrow> foldr max xs (0::nat) \<le> b"
  by (induction xs) auto

lemma height_child: "c \<in> set (children n) \<Longrightarrow> height c < height n"
  by (cases n) (auto simp: less_Suc_eq_le intro!: foldr_max_ge)

lemma height_less_by_children:
  assumes "children n \<noteq> []" "\<And>c. c \<in> set cs' \<Longrightarrow> \<exists>d \<in> set (children n). height c \<le> height d"
  shows "height (Node kvs cs') \<le> height n"
proof -
  have "foldr max (map height cs') 0 \<le> foldr max (map height (children n)) 0"
  proof (rule foldr_max_le)
    fix x assume "x \<in> set (map height cs')"
    then obtain c where c: "c \<in> set cs'" "x = height c" by auto
    from assms(2)[OF c(1)] obtain d where d: "d \<in> set (children n)" "height c \<le> height d" by auto
    have "height d \<le> foldr max (map height (children n)) 0"
      by (rule foldr_max_ge) (use d in auto)
    with d c show "x \<le> foldr max (map height (children n)) 0" by simp
  qed
  then show ?thesis by (cases n) simp
qed

lemma height_sub_children:
  assumes "set cs' \<subseteq> set (children y)"
  shows "height (Node kvs cs') \<le> height y"
proof -
  have "foldr max (map height cs') 0 \<le> foldr max (map height (children y)) 0"
    by (rule foldr_max_le) (use assms in \<open>auto intro!: foldr_max_ge\<close>)
  then show ?thesis by (cases y) simp
qed

lemma split_child_children:
  assumes "split_child cap n i = Some n'"
  shows "\<exists>yi yc zi zc. children n' = insert_child (i + 1) (Node zi zc) ((children n)[i := Node yi yc])
           \<and> set yc \<subseteq> set (children (children n ! i)) \<and> set zc \<subseteq> set (children (children n ! i))
           \<and> i < length (children n)"
proof -
  have sub: "set (take a (drop b xs)) \<subseteq> set xs" "set (take a xs) \<subseteq> set xs" for a b and xs :: "'c list"
    by (auto dest: in_set_takeD in_set_dropD)
  from assms show ?thesis
    unfolding split_child_def Let_def
    by (simp split: if_splits option.splits prod.splits) (use sub in \<open>fastforce\<close>)+
qed

lemma split_child_height:
  assumes "split_child cap n i = Some n'" "c \<in> set (children n')"
  shows "height c < height n"
proof -
  from split_child_children[OF assms(1)] obtain yi yc zi zc where
    n': "children n' = insert_child (i + 1) (Node zi zc) ((children n)[i := Node yi yc])"
    and yc: "set yc \<subseteq> set (children (children n ! i))"
    and zc: "set zc \<subseteq> set (children (children n ! i))"
    and i: "i < length (children n)"
    by blast
  define y where "y = children n ! i"
  have yin: "y \<in> set (children n)" using i by (simp add: y_def)
  have "set (children n') \<subseteq> {Node zi zc, Node yi yc} \<union> set (children n)"
    using set_update_subset_insert[of "children n" i "Node yi yc"]
    by (auto simp: n' insert_child_def dest!: in_set_takeD in_set_dropD)
  with assms(2) have "c = Node zi zc \<or> c = Node yi yc \<or> c \<in> set (children n)"
    by auto
  moreover have "height (Node zi zc) \<le> height y" "height (Node yi yc) \<le> height y"
    unfolding y_def by (rule height_sub_children[OF zc], rule height_sub_children[OF yc])
  ultimately show ?thesis
    using height_child[OF yin] height_child[of c n] by auto
qed

lemma insert_descend_height:
  assumes "insert_descend cap n key = Some (n', i)"
  shows "height (children n' ! i) < height n"
  using assms
  by (auto simp: insert_descend_def Let_def split: if_splits option.splits
      intro: height_child split_child_height[where i = "Suc _"] split_child_height)

function node_insert :: "nat \<Rightarrow> ('k::linorder, 'v) node \<Rightarrow> 'k \<Rightarrow> 'v \<Rightarrow> ('k, 'v) node option" where
  "node_insert cap n key val =
     (if is_full cap n then None
      else if is_leaf n then Some (Node (ls_insert key val (impl n)) [])
      else
        (case insert_descend cap n key of
           None \<Rightarrow> None
         | Some (n', i) \<Rightarrow>
             (case node_insert cap (children n' ! i) key val of
                None \<Rightarrow> None
              | Some c' \<Rightarrow> Some (Node (impl n') ((children n')[i := c'])))))"
  by pat_completeness auto
termination
  by (relation "measure (\<lambda>(cap, n, key, val). height n)") (auto dest: insert_descend_height)

declare node_insert.simps [simp del]


text \<open>The two descents of \<open>Node::erase\<close> to the maximum of the left and the minimum of the
  right subtree: \<open>while(!c->is_leaf()) c = c->children_[c->num_children_-1]\<close> and
  \<open>c = c->children_[0]\<close>.\<close>

function rightmost_leaf :: "('k, 'v) node \<Rightarrow> ('k, 'v) node" where
  "rightmost_leaf n = (if is_leaf n then n else rightmost_leaf (last (children n)))"
  by pat_completeness auto
termination
  by (relation "measure height") (auto simp: is_leaf_def intro: height_child)

function leftmost_leaf :: "('k, 'v) node \<Rightarrow> ('k, 'v) node" where
  "leftmost_leaf n = (if is_leaf n then n else leftmost_leaf (hd (children n)))"
  by pat_completeness auto
termination
  by (relation "measure height") (auto simp: is_leaf_def intro: height_child)

declare rightmost_leaf.simps [simp del] leftmost_leaf.simps [simp del]

text \<open>Moving all pairs of a sibling into a node, one \<open>impl_.insert\<close> at a time.\<close>

definition insert_all :: "('k::linorder, 'v) impl \<Rightarrow> ('k, 'v) impl \<Rightarrow> ('k, 'v) impl" where
  "insert_all src dst = foldl (\<lambda>acc kv. ls_insert (fst kv) (snd kv) acc) dst src"

text \<open>
  \<open>Node::erase\<close>, the branch \<open>r.exists && impl_[r.pos] == key\<close> with \<open>i = r.pos + 1\<close>: the
  key is in this inner node, between the children \<open>y = children_[i-1]\<close> and
  \<open>z = children_[i]\<close>. The result is the node after the replacement or the merge, the index
  of the child in which the erasure continues, and the key to erase there.
\<close>

definition erase_contained ::
  "nat \<Rightarrow> ('k::linorder, 'v) node \<Rightarrow> nat \<Rightarrow> 'k \<Rightarrow> (('k, 'v) node \<times> nat \<times> 'k) option" where
  "erase_contained cap n i key =
     (if \<not> i < cap + 1 \<or> \<not> i < length (children n) \<or> i = 0 then None
      else
        let y = children n ! (i - 1);
            z = children n ! i;
            ysize = node_size y;
            zsize = node_size z
        in if ysize \<ge> deletion_threshold cap then
             (let c = rightmost_leaf y
              in if impl c = [] then None
                 else let key_pred = fst (last (impl c)); value_pred = snd (last (impl c))
                      in Some (Node (ls_insert key_pred value_pred (ls_erase_discard key (impl n)))
                                    (children n), i - 1, key_pred))
           else if zsize \<ge> deletion_threshold cap then
             (let c = leftmost_leaf z
              in if impl c = [] then None
                 else let key_succ = fst (hd (impl c)); value_succ = snd (hd (impl c))
                      in Some (Node (ls_insert key_succ value_succ (ls_erase_discard key (impl n)))
                                    (children n), i, key_succ))
           else if ysize \<noteq> deletion_threshold cap - 1 \<or> zsize \<noteq> deletion_threshold cap - 1 then None
           else
             (case ls_erase key (impl n) of
                None \<Rightarrow> None
              | Some (val, impl') \<Rightarrow>
                  if \<not> is_leaf z \<and> (is_leaf y \<or> length (children y) + length (children z) > cap + 1)
                  then None
                  else
                    let y' = Node (insert_all (impl z) (ls_insert key val (impl y)))
                                  (children y @ children z)
                    in Some (Node impl' (erase_child i ((children n)[i - 1 := y'])), i - 1, key)))"

text \<open>
  \<open>Node::erase\<close>, preprocessing of the child \<open>c = children_[i]\<close> that has fewer than
  \<open>deletion_threshold_\<close> keys. Borrowing from the left sibling: the splitter \<open>impl_[i-1]\<close>
  moves down into \<open>c\<close>, the largest key of the left sibling moves up, the rightmost child of
  the left sibling becomes the first child of \<open>c\<close>.
\<close>

definition rotate_from_left ::
  "nat \<Rightarrow> ('k::linorder, 'v) node \<Rightarrow> nat \<Rightarrow> 'k \<Rightarrow> ('k, 'v) node option" where
  "rotate_from_left cap n i key =
     (if \<not> (0 < i \<and> i < length (children n) \<and> i - 1 < node_size n) then None
      else
        let c = children n ! i;
            left = children n ! (i - 1);
            splitter = fst (impl n ! (i - 1))
        in if \<not> key > splitter \<or> impl left = [] then None
           else (case ls_erase splitter (impl n) of
                   None \<Rightarrow> None
                 | Some (splitter_value, impl1) \<Rightarrow>
                     let llargest = fst (last (impl left))
                     in if \<not> splitter > llargest then None
                        else (case ls_erase llargest (impl left) of
                                None \<Rightarrow> None
                              | Some (llargest_value, left_impl) \<Rightarrow>
                                  if \<not> is_leaf left \<and> \<not> length (children c) < cap + 1 then None
                                  else
                                    let c' = Node (ls_insert splitter splitter_value (impl c))
                                                  (if is_leaf left then children c
                                                   else insert_child 0 (last (children left)) (children c));
                                        left' = Node left_impl
                                                  (if is_leaf left then children left
                                                   else erase_child (length (children left) - 1) (children left))
                                    in Some (Node (ls_insert llargest llargest_value impl1)
                                                  ((children n)[i - 1 := left', i := c'])))))"

text \<open>Borrowing from the right sibling, symmetrically, through the splitter \<open>impl_[i]\<close>.\<close>

definition rotate_from_right ::
  "nat \<Rightarrow> ('k::linorder, 'v) node \<Rightarrow> nat \<Rightarrow> 'k \<Rightarrow> ('k, 'v) node option" where
  "rotate_from_right cap n i key =
     (if \<not> (i + 1 < length (children n) \<and> i < node_size n) then None
      else
        let c = children n ! i;
            right = children n ! (i + 1);
            splitter = fst (impl n ! i)
        in if \<not> key < splitter \<or> impl right = [] then None
           else (case ls_erase splitter (impl n) of
                   None \<Rightarrow> None
                 | Some (splitter_value, impl1) \<Rightarrow>
                     let rsmallest = fst (hd (impl right))
                     in if \<not> rsmallest > splitter then None
                        else (case ls_erase rsmallest (impl right) of
                                None \<Rightarrow> None
                              | Some (rsmallest_value, right_impl) \<Rightarrow>
                                  if \<not> is_leaf right \<and> \<not> length (children c) < cap + 1 then None
                                  else
                                    let c' = Node (ls_insert splitter splitter_value (impl c))
                                                  (if is_leaf right then children c
                                                   else insert_child (length (children c)) (hd (children right)) (children c));
                                        right' = Node right_impl
                                                  (if is_leaf right then children right
                                                   else erase_child 0 (children right))
                                    in Some (Node (ls_insert rsmallest rsmallest_value impl1)
                                                  ((children n)[i + 1 := right', i := c'])))))"

text \<open>Merging \<open>c\<close> with its right sibling: the splitter \<open>impl_[i]\<close> and all keys and children
  of the sibling move into \<open>c\<close>, the sibling is erased from this node.\<close>

definition merge_with_right ::
  "nat \<Rightarrow> ('k::linorder, 'v) node \<Rightarrow> nat \<Rightarrow> 'k \<Rightarrow> ('k, 'v) node option" where
  "merge_with_right cap n i key =
     (if \<not> (i + 1 < length (children n) \<and> i < node_size n) then None
      else
        let c = children n ! i;
            right = children n ! (i + 1);
            splitter = fst (impl n ! i)
        in if \<not> key < splitter then None
           else (case ls_erase splitter (impl n) of
                   None \<Rightarrow> None
                 | Some (splitter_value, impl1) \<Rightarrow>
                     if \<not> is_leaf right \<and> (is_leaf c \<or> length (children c) + length (children right) > cap + 1)
                     then None
                     else
                       let c' = Node (insert_all (impl right) (ls_insert splitter splitter_value (impl c)))
                                     (children c @ children right)
                       in Some (Node impl1 (erase_child (i + 1) ((children n)[i := c'])))))"

text \<open>Merging \<open>c\<close> with its left sibling: the children of \<open>c\<close> are first copied upwards by the
  number of children of the sibling, in ascending order, which is a shift only if \<open>c\<close> has no
  more children than the sibling; then the children of the sibling are copied in front.\<close>

definition merge_with_left ::
  "nat \<Rightarrow> ('k::linorder, 'v) node \<Rightarrow> nat \<Rightarrow> 'k \<Rightarrow> ('k, 'v) node option" where
  "merge_with_left cap n i key =
     (if \<not> (0 < i \<and> i < length (children n) \<and> i - 1 < node_size n) then None
      else
        let c = children n ! i;
            left = children n ! (i - 1);
            splitter = fst (impl n ! (i - 1))
        in if \<not> key > splitter then None
           else (case ls_erase splitter (impl n) of
                   None \<Rightarrow> None
                 | Some (splitter_value, impl1) \<Rightarrow>
                     if \<not> is_leaf left \<and> (is_leaf c \<or> length (children c) > length (children left)
                                            \<or> length (children left) + length (children c) > cap + 1)
                     then None
                     else
                       let c' = Node (insert_all (impl left) (ls_insert splitter splitter_value (impl c)))
                                     (children left @ children c)
                       in Some (Node impl1 (erase_child (i - 1) ((children n)[i := c'])))))"

text \<open>The choice between the four, as in the source: left sibling first, then right sibling,
  then merging, with the right sibling if there is one. The result is the node and the
  index at which \<open>c\<close> now is.\<close>

definition erase_rebalance ::
  "nat \<Rightarrow> ('k::linorder, 'v) node \<Rightarrow> nat \<Rightarrow> 'k \<Rightarrow> (('k, 'v) node \<times> nat) option" where
  "erase_rebalance cap n i key =
     (if \<not> i < length (children n) then None
      else
        let c = children n ! i;
            t = deletion_threshold cap;
            has_left = (i > 0);
            has_right = (i < length (children n) - 1)
        in if \<not> node_size c < t then Some (n, i)
           else if node_size c \<noteq> t - 1 then None
           else if has_left \<and> node_size (children n ! (i - 1)) \<ge> t then
             map_option (\<lambda>n'. (n', i)) (rotate_from_left cap n i key)
           else if has_right \<and> node_size (children n ! (i + 1)) \<ge> t then
             map_option (\<lambda>n'. (n', i)) (rotate_from_right cap n i key)
           else if \<not> (has_left \<or> has_right)
                   \<or> (has_left \<and> node_size (children n ! (i - 1)) \<noteq> t - 1)
                   \<or> (has_right \<and> node_size (children n ! (i + 1)) \<noteq> t - 1) then None
           else if has_right then
             map_option (\<lambda>n'. (n', i)) (merge_with_right cap n i key)
           else
             map_option (\<lambda>n'. (n', i - 1)) (merge_with_left cap n i key))"

text \<open>One activation of \<open>Node::erase\<close> up to its recursive call: either it ends in a leaf
  with the result of \<open>impl_.erase(key)\<close>, or it continues in a child, with a result that is
  \<open>true\<close> whatever the recursive call returns when the key was found in this node.\<close>

datatype ('k, 'v) erase_step = Done bool "('k, 'v) node" | Descend "('k, 'v) node" nat 'k bool

definition erase_step :: "nat \<Rightarrow> ('k::linorder, 'v) node \<Rightarrow> 'k \<Rightarrow> ('k, 'v) erase_step option" where
  "erase_step cap n key =
     (if impl n = [] then None
      else if is_leaf n then
        (case ls_erase key (impl n) of
           None \<Rightarrow> Some (Done False n)
         | Some (v, impl') \<Rightarrow> Some (Done True (Node impl' [])))
      else
        (case ls_predecessor key (node_keys n) of
           None \<Rightarrow> map_option (\<lambda>(n', j). Descend n' j key False) (erase_rebalance cap n 0 key)
         | Some pos \<Rightarrow>
             if fst (impl n ! pos) = key
             then map_option (\<lambda>(n', j, key'). Descend n' j key' True) (erase_contained cap n (pos + 1) key)
             else map_option (\<lambda>(n', j). Descend n' j key False) (erase_rebalance cap n (pos + 1) key)))"

text \<open>Termination of \<open>Node::erase\<close>: every child of the node in which the erasure
  continues is a child of the node it started in, or is built from children of its children.\<close>

definition derived_from :: "('k, 'v) node \<Rightarrow> ('k, 'v) node \<Rightarrow> bool" where
  "derived_from n c' = (c' \<in> set (children n)
      \<or> (\<forall>g \<in> set (children c'). \<exists>c \<in> set (children n). g \<in> set (children c)))"

lemma foldr_max_less: "0 < b \<Longrightarrow> (\<And>x. x \<in> set xs \<Longrightarrow> x < b) \<Longrightarrow> foldr max xs (0::nat) < b"
  by (induction xs) auto

lemma height_pos: "0 < height n"
  by (cases n) simp

lemma derived_from_height:
  assumes "derived_from n c'" "children n \<noteq> []"
  shows "height c' < height n"
proof (cases "c' \<in> set (children n)")
  case True then show ?thesis by (rule height_child)
next
  case False
  with assms have g: "\<And>g. g \<in> set (children c') \<Longrightarrow> \<exists>c \<in> set (children n). g \<in> set (children c)"
    by (auto simp: derived_from_def)
  define M where "M = foldr max (map height (children n)) 0"
  obtain c0 where c0: "c0 \<in> set (children n)" using assms(2) by (cases "children n") auto
  have "height c0 \<le> M" unfolding M_def by (rule foldr_max_ge) (use c0 in auto)
  with height_pos[of c0] have Mpos: "0 < M" by simp
  have "foldr max (map height (children c')) 0 < M"
  proof (rule foldr_max_less[OF Mpos])
    fix x assume "x \<in> set (map height (children c'))"
    then obtain g where gg: "g \<in> set (children c')" "x = height g" by auto
    from g[OF gg(1)] obtain c where c: "c \<in> set (children n)" "g \<in> set (children c)" by auto
    have "height c \<le> M" unfolding M_def by (rule foldr_max_ge) (use c in auto)
    with height_child[OF c(2)] gg show "x < M" by simp
  qed
  then show ?thesis by (cases n; cases c') (simp add: M_def)
qed

definition all_derived :: "('k, 'v) node \<Rightarrow> ('k, 'v) node list \<Rightarrow> bool" where
  "all_derived n cs = (\<forall>c \<in> set cs. derived_from n c)"

lemma derived_update:
  assumes "all_derived n cs" "derived_from n x"
  shows "all_derived n (cs[i := x])"
  using assms set_update_subset_insert[of cs i x] by (auto simp: all_derived_def)

lemma derived_erase_child:
  assumes "all_derived n cs"
  shows "all_derived n (erase_child i cs)"
  using assms by (auto simp: erase_child_def all_derived_def dest: in_set_takeD in_set_dropD)

lemma derived_self: "all_derived n (children n)"
  by (simp add: derived_from_def all_derived_def)

lemma derived_mk:
  assumes "set gs \<subseteq> (\<Union>c \<in> set (children n). set (children c))"
  shows "derived_from n (Node kvs gs)"
  using assms by (auto simp: derived_from_def)

lemma rotate_from_left_derived:
  assumes "rotate_from_left cap n i key = Some n'"
  shows "all_derived n (children n')"
proof -
  from assms have i: "0 < i" "i < length (children n)"
    by (auto simp: rotate_from_left_def split: if_splits)
  then have mem: "children n ! i \<in> set (children n)" "children n ! (i - 1) \<in> set (children n)"
    by auto
  from assms obtain a b cc lc where eq: "children n' = (children n)[i - 1 := Node a lc, i := Node b cc]"
    and lc: "set lc \<subseteq> set (children (children n ! (i - 1)))"
    and cc: "set cc \<subseteq> set (children (children n ! (i - 1))) \<union> set (children (children n ! i))"
    unfolding rotate_from_left_def Let_def
    by (simp split: if_splits option.splits prod.splits)
       (use last_in_set hd_in_set in \<open>fastforce simp: insert_child_def erase_child_def is_leaf_def dest: in_set_takeD in_set_dropD\<close>)+
  have "derived_from n (Node a lc)" "derived_from n (Node b cc)"
    by (rule derived_mk; use mem lc cc in blast)+
  then show ?thesis unfolding eq
    by (intro derived_update derived_self)
qed

lemma rotate_from_right_derived:
  assumes "rotate_from_right cap n i key = Some n'"
  shows "all_derived n (children n')"
proof -
  from assms have i: "i + 1 < length (children n)"
    by (auto simp: rotate_from_right_def split: if_splits)
  then have mem: "children n ! i \<in> set (children n)" "children n ! (i + 1) \<in> set (children n)"
    by auto
  from assms obtain a b cc rc where eq: "children n' = (children n)[i + 1 := Node a rc, i := Node b cc]"
    and rc: "set rc \<subseteq> set (children (children n ! (i + 1)))"
    and cc: "set cc \<subseteq> set (children (children n ! (i + 1))) \<union> set (children (children n ! i))"
    unfolding rotate_from_right_def Let_def
    by (simp split: if_splits option.splits prod.splits)
       (use last_in_set hd_in_set in \<open>fastforce simp: insert_child_def erase_child_def is_leaf_def dest: in_set_takeD in_set_dropD\<close>)+
  have "derived_from n (Node a rc)" "derived_from n (Node b cc)"
    by (rule derived_mk; use mem rc cc in blast)+
  then show ?thesis unfolding eq
    by (intro derived_update derived_self)
qed

lemma merge_with_right_derived:
  assumes "merge_with_right cap n i key = Some n'"
  shows "all_derived n (children n')"
proof -
  from assms have i: "i + 1 < length (children n)"
    by (auto simp: merge_with_right_def split: if_splits)
  then have mem: "children n ! i \<in> set (children n)" "children n ! (i + 1) \<in> set (children n)"
    by auto
  from assms obtain a where eq: "children n' = erase_child (i + 1)
        ((children n)[i := Node a (children (children n ! i) @ children (children n ! (i + 1)))])"
    unfolding merge_with_right_def Let_def
    by (auto split: if_splits option.splits prod.splits)
  have "derived_from n (Node a (children (children n ! i) @ children (children n ! (i + 1))))"
    by (rule derived_mk) (use mem in auto)
  then show ?thesis unfolding eq
    by (intro derived_erase_child derived_update derived_self)
qed

lemma merge_with_left_derived:
  assumes "merge_with_left cap n i key = Some n'"
  shows "all_derived n (children n')"
proof -
  from assms have i: "0 < i" "i < length (children n)"
    by (auto simp: merge_with_left_def split: if_splits)
  then have mem: "children n ! i \<in> set (children n)" "children n ! (i - 1) \<in> set (children n)"
    by auto
  from assms obtain a where eq: "children n' = erase_child (i - 1)
        ((children n)[i := Node a (children (children n ! (i - 1)) @ children (children n ! i))])"
    unfolding merge_with_left_def Let_def
    by (auto split: if_splits option.splits prod.splits)
  have "derived_from n (Node a (children (children n ! (i - 1)) @ children (children n ! i)))"
    by (rule derived_mk) (use mem in auto)
  then show ?thesis unfolding eq
    by (intro derived_erase_child derived_update derived_self)
qed

lemma erase_rebalance_derived:
  assumes "erase_rebalance cap n i key = Some (n', j)"
  shows "all_derived n (children n')"
  using assms derived_self[of n] unfolding erase_rebalance_def Let_def
  by (auto split: if_splits dest: rotate_from_left_derived rotate_from_right_derived
      merge_with_left_derived merge_with_right_derived)

lemma erase_contained_derived:
  assumes "erase_contained cap n i key = Some (n', j, key')"
  shows "all_derived n (children n')"
proof -
  from assms have i: "0 < i" "i < length (children n)"
    by (auto simp: erase_contained_def split: if_splits)
  then have mem: "children n ! i \<in> set (children n)" "children n ! (i - 1) \<in> set (children n)"
    by auto
  from assms consider "children n' = children n"
    | a where "children n' = erase_child i
        ((children n)[i - 1 := Node a (children (children n ! (i - 1)) @ children (children n ! i))])"
    unfolding erase_contained_def Let_def
    by (simp split: if_splits option.splits prod.splits) force+
  then show ?thesis
  proof cases
    case 1 then show ?thesis by (simp add: derived_self)
  next
    case 2
    have "derived_from n (Node a (children (children n ! (i - 1)) @ children (children n ! i)))"
      by (rule derived_mk) (use mem in auto)
    then show ?thesis unfolding 2
      by (intro derived_erase_child derived_update derived_self)
  qed
qed

lemma erase_step_height:
  assumes "erase_step cap n key = Some (Descend n' j key' f)" "j < length (children n')"
  shows "height (children n' ! j) < height n"
proof -
  from assms(1) have nl: "children n \<noteq> []"
    by (auto simp: erase_step_def is_leaf_def split: if_splits option.splits)
  from assms(1) have "all_derived n (children n')"
    by (auto simp: erase_step_def split: if_splits option.splits
        dest: erase_contained_derived erase_rebalance_derived)
  with assms(2) have "derived_from n (children n' ! j)" by (simp add: all_derived_def)
  then show ?thesis using nl by (rule derived_from_height)
qed


text \<open>\<open>Node::erase\<close>: the result of the source and the node after the erasure.\<close>

function node_erase :: "nat \<Rightarrow> ('k::linorder, 'v) node \<Rightarrow> 'k \<Rightarrow> (bool \<times> ('k, 'v) node) option" where
  "node_erase cap n key =
     (case erase_step cap n key of
        None \<Rightarrow> None
      | Some (Done result n') \<Rightarrow> Some (result, n')
      | Some (Descend n' j key' found) \<Rightarrow>
          if \<not> j < length (children n') then None
          else (case node_erase cap (children n' ! j) key' of
                  None \<Rightarrow> None
                | Some (result, c') \<Rightarrow> Some (found \<or> result, Node (impl n') ((children n')[j := c']))))"
  by pat_completeness auto
termination
  by (relation "measure (\<lambda>(cap, n, key). height n)") (auto dest: erase_step_height)

declare node_erase.simps [simp del]


subsection \<open>BTree\<close>

text \<open>The fields \<open>size_\<close> and \<open>root_\<close>.\<close>

record ('k, 'v) btree =
  tsize :: nat
  root :: "('k, 'v) node"

text \<open>The constructor: \<open>size_(0), root_(new Node())\<close>.\<close>

definition btree_empty :: "('k, 'v) btree" where
  "btree_empty = \<lparr>tsize = 0, root = Node [] []\<rparr>"

text \<open>A \<open>QueryResult\<close> is \<open>None\<close> when \<open>exists\<close> is false (key and value are then not
  specified) and \<open>Some (key, value)\<close> otherwise. The loop of \<open>BTree::predecessor\<close> keeps the
  last key and value found on the way down; \<open>best\<close> is that triple of local variables.\<close>

function predecessor_from ::
  "('k::linorder, 'v) node \<Rightarrow> 'k \<Rightarrow> ('k \<times> 'v) option \<Rightarrow> ('k \<times> 'v) option option" where
  "predecessor_from node x best =
     (let r = ls_predecessor x (node_keys node);
          best' = (case r of None \<Rightarrow> best | Some pos \<Rightarrow> Some (impl node ! pos))
      in if is_leaf node then Some best'
         else if (case r of None \<Rightarrow> False | Some pos \<Rightarrow> fst (impl node ! pos) = x) then Some best'
         else
           let i = (case r of None \<Rightarrow> 0 | Some pos \<Rightarrow> pos + 1)
           in if i < length (children node) then predecessor_from (children node ! i) x best'
              else None)"
  by pat_completeness auto
termination
  by (relation "measure (\<lambda>(n, x, best). height n)") (auto intro: height_child)

function successor_from ::
  "('k::linorder, 'v) node \<Rightarrow> 'k \<Rightarrow> ('k \<times> 'v) option \<Rightarrow> ('k \<times> 'v) option option" where
  "successor_from node x best =
     (let r = ls_successor x (node_keys node);
          best' = (case r of None \<Rightarrow> best | Some pos \<Rightarrow> Some (impl node ! pos))
      in if is_leaf node then Some best'
         else if (case r of None \<Rightarrow> False | Some pos \<Rightarrow> fst (impl node ! pos) = x) then Some best'
         else
           let i = (case r of None \<Rightarrow> length (children node) - 1 | Some pos \<Rightarrow> pos)
           in if i < length (children node) then successor_from (children node ! i) x best'
              else None)"
  by pat_completeness auto
termination
  by (relation "measure (\<lambda>(n, x, best). height n)") (auto intro: height_child)

declare predecessor_from.simps [simp del] successor_from.simps [simp del]

definition predecessor :: "('k::linorder, 'v) btree \<Rightarrow> 'k \<Rightarrow> ('k \<times> 'v) option option" where
  "predecessor t x = predecessor_from (root t) x None"

definition successor :: "('k::linorder, 'v) btree \<Rightarrow> 'k \<Rightarrow> ('k \<times> 'v) option option" where
  "successor t x = successor_from (root t) x None"





definition btree_min :: "('k, 'v) btree \<Rightarrow> ('k \<times> 'v) option option" where
  "btree_min t =
     (if tsize t = 0 then Some None
      else let l = leftmost_leaf (root t)
           in if impl l = [] then None else Some (Some (impl l ! 0)))"

definition btree_max :: "('k, 'v) btree \<Rightarrow> ('k \<times> 'v) option option" where
  "btree_max t =
     (if tsize t = 0 then Some None
      else let l = rightmost_leaf (root t)
           in if impl l = [] then None else Some (Some (impl l ! (node_size l - 1))))"

text \<open>\<open>BTree::insert\<close>: a full root becomes child 0 of a new root and is split; then
  \<open>Node::insert\<close> on the root, and \<open>++size_\<close>.\<close>

definition insert :: "nat \<Rightarrow> ('k::linorder, 'v) btree \<Rightarrow> 'k \<Rightarrow> 'v \<Rightarrow> ('k, 'v) btree option" where
  "insert cap t key val =
     (case (if is_full cap (root t) then split_child cap (Node [] (insert_child 0 (root t) [])) 0
            else Some (root t)) of
        None \<Rightarrow> None
      | Some r \<Rightarrow>
          (case node_insert cap r key val of
             None \<Rightarrow> None
           | Some r' \<Rightarrow> Some \<lparr>tsize = tsize t + 1, root = r'\<rparr>))"

text \<open>\<open>BTree::erase\<close>: asserts \<open>size_ > 0\<close>; after \<open>Node::erase\<close> on the root, a root without
  keys that still has a child is replaced by that child.\<close>

definition erase :: "nat \<Rightarrow> ('k::linorder, 'v) btree \<Rightarrow> 'k \<Rightarrow> (bool \<times> ('k, 'v) btree) option" where
  "erase cap t key =
     (if \<not> tsize t > 0 then None
      else (case node_erase cap (root t) key of
              None \<Rightarrow> None
            | Some (result, r) \<Rightarrow>
                let sz = (if result then tsize t - 1 else tsize t)
                in if node_size r = 0 \<and> length (children r) > 0 then
                     (if length (children r) \<noteq> 1 then None
                      else Some (result, \<lparr>tsize = sz, root = children r ! 0\<rparr>))
                   else Some (result, \<lparr>tsize = sz, root = r\<rparr>)))"


section \<open>Range-minimum queries (rmq)\<close>

text \<open>
  The index type of both structures is \<open>uint32_t\<close>; sizes are \<open>size_t\<close>. Indices are
  natural numbers here, with the reduction modulo \<open>2^32\<close> written where the source computes
  in \<open>uint32_t\<close>. A result \<open>None\<close> of a query means that the source fails an assertion or
  reads outside an array.
\<close>

definition u32 :: "nat \<Rightarrow> nat" where
  "u32 x = x mod 2 ^ 32"

text \<open>\<open>std::bit_width\<close>.\<close>

fun bit_width :: "nat \<Rightarrow> nat" where
  "bit_width n = (if n = 0 then 0 else Suc (bit_width (n div 2)))"

declare bit_width.simps [simp del]

subsection \<open>RMQBenderFarachColton\<close>

text \<open>\<open>rmq_[0]\<close>: for every \<open>i < n - 1\<close> the position of the smaller of \<open>data[i]\<close> and
  \<open>data[i+1]\<close>, the left one when they are equal.\<close>

definition bfc_first_level :: "'a::linorder list \<Rightarrow> nat list" where
  "bfc_first_level data =
     map (\<lambda>i. if data ! i \<le> data ! (i + 1) then i else i + 1) [0..<length data - 1]"

text \<open>\<open>rmq_[level]\<close> from \<open>rmq_[level-1]\<close>, with \<open>level_size = n - ((2 << level) - 1)\<close> and
  \<open>interval_size = 1 << level\<close>.\<close>

definition bfc_next_level :: "'a::linorder list \<Rightarrow> nat \<Rightarrow> nat list \<Rightarrow> nat list" where
  "bfc_next_level data level prev =
     map (\<lambda>i. let a = prev ! i; b = prev ! (i + 2 ^ level)
              in if data ! a \<le> data ! b then a else b)
         [0..<length data - (2 * 2 ^ level - 1)]"

text \<open>The loop over \<open>level = 1 .. num_levels - 1\<close>; \<open>k\<close> counts the levels still to build.\<close>

fun bfc_higher_levels :: "'a::linorder list \<Rightarrow> nat \<Rightarrow> nat \<Rightarrow> nat list \<Rightarrow> nat list list" where
  "bfc_higher_levels data level 0 prev = []"
| "bfc_higher_levels data level (Suc k) prev =
     (let cur = bfc_next_level data level prev
      in cur # bfc_higher_levels data (Suc level) k cur)"

record 'a bfc =
  bfc_data :: "'a list"
  bfc_levels :: "nat list list"

text \<open>
  The constructor, for \<open>n = length data\<close>. It allocates an array of
  \<open>num_levels = bit_width(n) - 1\<close> levels and then stores level 0 in any case. For \<open>n = 1\<close>
  there are no levels and that store is outside the array; for \<open>n = 0\<close> the subtraction
  wraps around in \<open>size_t\<close> and no such array exists. Both are the result \<open>None\<close>.
\<close>

definition bfc_construct :: "'a::linorder list \<Rightarrow> 'a bfc option" where
  "bfc_construct data =
     (let num_levels = bit_width (length data) - 1;
          first = bfc_first_level data
      in if bit_width (length data) < 2 then None
         else Some \<lparr>bfc_data = data,
                    bfc_levels = first # bfc_higher_levels data 1 (num_levels - 1) first\<rparr>)"

text \<open>\<open>RMQBenderFarachColton::rmq(i, j)\<close>.\<close>

definition bfc_rmq :: "'a::linorder bfc \<Rightarrow> nat \<Rightarrow> nat \<Rightarrow> nat option" where
  "bfc_rmq r i j =
     (if \<not> i \<le> j then None
      else if i = j then Some i
      else
        let d = j - i + 1;
            level = bit_width d - 1;
            interval_size = 2 ^ level
        in if \<not> (0 < level \<and> level - 1 < length (bfc_levels r)) then None
           else
             let lv = bfc_levels r ! (level - 1)
             in if \<not> (i < length lv \<and> j + 1 - interval_size < length lv) then None
                else
                  let a = lv ! i; b = lv ! (j + 1 - interval_size)
                  in if \<not> (a < length (bfc_data r) \<and> b < length (bfc_data r)) then None
                     else Some (if bfc_data r ! a \<le> bfc_data r ! b then a else b))"

subsection \<open>RMQ\<close>

definition block_size :: nat where
  "block_size = 64"

text \<open>\<open>RMQ::naive_rmq(beg, end, min)\<close>: the scan of \<open>[beg+1, end)\<close> that starts with
  \<open>data_[beg]\<close> as the minimum; the result is \<open>(min_pos, min)\<close>.\<close>

function naive_rmq_loop :: "'a::linorder list \<Rightarrow> nat \<Rightarrow> nat \<Rightarrow> nat \<Rightarrow> 'a \<Rightarrow> (nat \<times> 'a) option" where
  "naive_rmq_loop data beg end min_pos m =
     (if beg < end then
        (if \<not> beg < length data then None
         else if data ! beg < m then naive_rmq_loop data (beg + 1) end beg (data ! beg)
         else naive_rmq_loop data (beg + 1) end min_pos m)
      else Some (min_pos, m))"
  by pat_completeness auto
termination
  by (relation "measure (\<lambda>(data, beg, end, min_pos, m). end - beg)") auto

declare naive_rmq_loop.simps [simp del]

definition naive_rmq :: "'a::linorder list \<Rightarrow> nat \<Rightarrow> nat \<Rightarrow> (nat \<times> 'a) option" where
  "naive_rmq data beg end =
     (if \<not> beg < length data then None
      else naive_rmq_loop data (u32 (beg + 1)) end beg (data ! beg))"

record 'a rmq =
  rmq_data :: "'a list"
  block_min_pos :: "nat list"
  block_min :: "'a list"
  block_rmq :: "'a bfc"

datatype error = Bad_array_new_length | Undefined

text \<open>The loop of the constructor over the blocks: \<open>beg = block * block_size_\<close> and
  \<open>end = min(beg + block_size_, n)\<close>, both stored as \<open>Index\<close>.\<close>

fun rmq_blocks :: "'a::linorder list \<Rightarrow> nat list \<Rightarrow> ((nat \<times> 'a) list) option" where
  "rmq_blocks data [] = Some []"
| "rmq_blocks data (block # blocks) =
     (let beg = u32 (block * block_size);
          end = u32 (min (beg + block_size) (length data))
      in case naive_rmq data beg end of
           None \<Rightarrow> None
         | Some pm \<Rightarrow> (case rmq_blocks data blocks of None \<Rightarrow> None | Some pms \<Rightarrow> Some (pm # pms)))"

text \<open>
  The constructor \<open>RMQ(data, n)\<close> with \<open>n = length data\<close>. The number of blocks,
  \<open>(n-1) / block_size_ + 1\<close>, is computed in \<open>size_t\<close>, a 64-bit word: for \<open>n = 0\<close> the
  difference \<open>n - 1\<close> wraps around. Allocations are taken to succeed.
\<close>

definition rmq_num_blocks :: "nat \<Rightarrow> nat" where
  "rmq_num_blocks n = unat (((word_of_nat n :: 64 word) - 1) div word_of_nat block_size + 1)"

definition rmq_construct :: "'a::linorder list \<Rightarrow> error + 'a rmq" where
  "rmq_construct data =
     (let num_blocks = rmq_num_blocks (length data)
      in case rmq_blocks data [0..<num_blocks] of
           None \<Rightarrow> Inl Undefined
         | Some pms \<Rightarrow>
             (case bfc_construct (map snd pms) of
                None \<Rightarrow> Inl Undefined
              | Some b \<Rightarrow>
                  Inr \<lparr>rmq_data = data, block_min_pos = map fst pms, block_min = map snd pms,
                       block_rmq = b\<rparr>))"

text \<open>\<open>RMQ::rmq(i, j)\<close>; the arguments are \<open>Index\<close> values.\<close>

definition rmq_query :: "'a::linorder rmq \<Rightarrow> nat \<Rightarrow> nat \<Rightarrow> nat option" where
  "rmq_query r i j =
     (if \<not> i \<le> j then None
      else if i = j then Some i
      else if j - i \<le> 3 * block_size then map_option fst (naive_rmq (rmq_data r) i (u32 (j + 1)))
      else
        let left_end = u32 ((i div block_size + 1) * block_size);
            right_beg = (j div block_size) * block_size;
            left_block = i div block_size + 1;
            right_block = j div block_size - 1
        in case naive_rmq (rmq_data r) i left_end of
             None \<Rightarrow> None
           | Some (left_min_pos, left_min) \<Rightarrow>
               (case naive_rmq (rmq_data r) (u32 right_beg) (u32 (j + 1)) of
                  None \<Rightarrow> None
                | Some (right_min_pos, right_min) \<Rightarrow>
                    if \<not> left_block < right_block then None
                    else (case bfc_rmq (block_rmq r) left_block right_block of
                            None \<Rightarrow> None
                          | Some b \<Rightarrow>
                              if \<not> b < length (block_min_pos r) then None
                              else
                                let mid_min_pos = block_min_pos r ! b
                                in if \<not> mid_min_pos < length (rmq_data r) then None
                                   else
                                     let mid_min = rmq_data r ! mid_min_pos;
                                         (min_pos, m) = (if mid_min < left_min then (mid_min_pos, mid_min)
                                                         else (left_min_pos, left_min));
                                         (min_pos, m) = (if right_min < m then (right_min_pos, right_min)
                                                         else (min_pos, m))
                                     in Some min_pos)))"


section \<open>The LZ-End parser (lzend.hpp)\<close>

subsection \<open>The suffix sorting library\<close>

text \<open>
  Modelled from the spec: the three calls \<open>libsais\<close>, \<open>libsais_plcp\<close> and \<open>libsais_lcp\<close> of
  the external suffix sorting library, which is not part of the repository. The spec
  describes them as pure functions: \<open>SA\<close> is the permutation of \<open>[0, n)\<close> that lists the
  suffixes of the byte string in lexicographic order, \<open>LCP[0] = 0\<close> and, for \<open>i \<ge> 1\<close>,
  \<open>LCP[i]\<close> is the length of the longest common prefix of the suffixes \<open>SA[i-1]\<close> and
  \<open>SA[i]\<close>, and \<open>PLCP[SA[i]] = LCP[i]\<close>. Bytes compare as unsigned values.
\<close>

definition suffix_array :: "string \<Rightarrow> nat list" where
  "suffix_array t = sort_key (\<lambda>i. drop i t) [0..<length t]"

fun lcp_length :: "'a list \<Rightarrow> 'a list \<Rightarrow> nat" where
  "lcp_length (x # xs) (y # ys) = (if x = y then Suc (lcp_length xs ys) else 0)"
| "lcp_length xs ys = 0"

definition lcp_array :: "string \<Rightarrow> nat list \<Rightarrow> int list" where
  "lcp_array t sa =
     map (\<lambda>i. if i = 0 then 0 else int (lcp_length (drop (sa ! (i - 1)) t) (drop (sa ! i) t)))
         [0..<length t]"

definition plcp_array :: "nat list \<Rightarrow> int list \<Rightarrow> int list" where
  "plcp_array sa lcp = foldl (\<lambda>a i. a[sa ! i := lcp ! i]) (replicate (length sa) 0) [0..<length sa]"

subsection \<open>parse\<close>

text \<open>\<open>Index\<close> is \<open>int32_t\<close>. The values of that type are integers here; what the source
  computes from them inside the loop stays between \<open>-1\<close> and \<open>n\<close>.\<close>

record phrase =
  lnk :: int
  len :: int
  ext :: char

record candidate =
  lex_pos :: int
  cand_lnk :: int
  cand_len :: int

text \<open>What the closures of \<open>parse\<close> capture: the arrays \<open>isa\<close> and \<open>lcp\<close> and the RMQ.\<close>

record env =
  env_isa :: "int list"
  env_lcp :: "int list"
  env_rmq :: "int rmq"

text \<open>The variables the main loop changes: \<open>parsing\<close>, \<open>z\<close>, and the map \<open>marked\<close>.\<close>

record state =
  parsing :: "phrase list"
  z :: int
  marked :: "(int, int) btree"

text \<open>\<open>ordered::btree::Map<Index, Index>\<close> has the default degree 65: nodes of capacity 64.\<close>

definition marked_capacity :: nat where
  "marked_capacity = 64"

text \<open>The conversion of an \<open>Index\<close> argument to the \<open>uint32_t\<close> parameter of \<open>RMQ::rmq\<close>.\<close>

definition to_u32 :: "int \<Rightarrow> nat" where
  "to_u32 x = nat (x mod 2 ^ 32)"

definition lcp_at_rmq :: "env \<Rightarrow> int \<Rightarrow> int \<Rightarrow> error + int" where
  "lcp_at_rmq e i j =
     (case rmq_query (env_rmq e) (to_u32 i) (to_u32 j) of
        None \<Rightarrow> Inl Undefined
      | Some p \<Rightarrow> if p < length (env_lcp e) then Inr (env_lcp e ! p) else Inl Undefined)"

definition lex_smaller_phrase :: "env \<Rightarrow> (int, int) btree \<Rightarrow> int \<Rightarrow> error + candidate" where
  "lex_smaller_phrase e m x =
     (case predecessor m (x - 1) of
        None \<Rightarrow> Inl Undefined
      | Some None \<Rightarrow> Inr \<lparr>lex_pos = 0, cand_lnk = 0, cand_len = 0\<rparr>
      | Some (Some (k, v)) \<Rightarrow>
          (case lcp_at_rmq e (k + 1) x of
             Inl err \<Rightarrow> Inl err
           | Inr l \<Rightarrow> Inr \<lparr>lex_pos = k, cand_lnk = v, cand_len = l\<rparr>))"

definition lex_greater_phrase :: "env \<Rightarrow> (int, int) btree \<Rightarrow> int \<Rightarrow> error + candidate" where
  "lex_greater_phrase e m x =
     (case successor m (x + 1) of
        None \<Rightarrow> Inl Undefined
      | Some None \<Rightarrow> Inr \<lparr>lex_pos = 0, cand_lnk = 0, cand_len = 0\<rparr>
      | Some (Some (k, v)) \<Rightarrow>
          (case lcp_at_rmq e (x + 1) k of
             Inl err \<Rightarrow> Inl err
           | Inr l \<Rightarrow> Inr \<lparr>lex_pos = k, cand_lnk = v, cand_len = l\<rparr>))"

text \<open>The closure \<open>find_copy_source\<close> of one iteration; it assigns to the captured \<open>p1\<close> and
  \<open>p2\<close>, which are the last argument and the result here.\<close>

definition find_copy_source ::
  "(int \<Rightarrow> error + candidate) \<Rightarrow> int \<Rightarrow> int \<Rightarrow> int \<Rightarrow> int \<Rightarrow> int \<Rightarrow> int \<times> int \<Rightarrow> error + (int \<times> int)" where
  "find_copy_source f isa_last len1 len2 i zz p =
     (case f isa_last of
        Inl err \<Rightarrow> Inl err
      | Inr c \<Rightarrow>
          if cand_len c \<ge> len1 then
            (if i > len1 then
               (case (if cand_lnk c = zz - 1 then f (lex_pos c) else Inr c) of
                  Inl err \<Rightarrow> Inl err
                | Inr c' \<Rightarrow> Inr (cand_lnk c, if cand_len c' \<ge> len2 then cand_lnk c' else snd p))
             else Inr (cand_lnk c, snd p))
          else Inr p)"

text \<open>The two calls of \<open>find_copy_source\<close> in an iteration.\<close>

definition copy_sources :: "env \<Rightarrow> state \<Rightarrow> int \<Rightarrow> int \<Rightarrow> int \<Rightarrow> int \<Rightarrow> error + (int \<times> int)" where
  "copy_sources e st isa_last len1 len2 i =
     (case find_copy_source (lex_smaller_phrase e (marked st)) isa_last len1 len2 i (z st) (-1, -1) of
        Inl err \<Rightarrow> Inl err
      | Inr (p1, p2) \<Rightarrow>
          if p1 = -1 \<or> p2 = -1
          then find_copy_source (lex_greater_phrase e (marked st)) isa_last len1 len2 i (z st) (p1, p2)
          else Inr (p1, p2))"

text \<open>One iteration of the main loop, for the position \<open>i\<close> of the input \<open>s\<close>.\<close>

definition parse_step :: "string \<Rightarrow> env \<Rightarrow> state \<Rightarrow> int \<Rightarrow> error + state" where
  "parse_step s e st i =
     (if \<not> (0 \<le> z st \<and> nat (z st) < length (parsing st) \<and> 1 \<le> i \<and> nat (i - 1) < length (env_isa e)
            \<and> nat i < length s) then Inl Undefined
      else
        let len1 = len (parsing st ! nat (z st));
            len2 = len1 + (if z st > 0 then len (parsing st ! nat (z st - 1)) else 0);
            isa_last = env_isa e ! nat (i - 1)
        in case copy_sources e st isa_last len1 len2 i of
             Inl err \<Rightarrow> Inl err
           | Inr (p1, p2) \<Rightarrow>
               if p2 \<noteq> -1 then
                 (if \<not> (0 \<le> i - 1 - len1 \<and> nat (i - 1 - len1) < length (env_isa e)) then Inl Undefined
                  else (case erase marked_capacity (marked st) (env_isa e ! nat (i - 1 - len1)) of
                          None \<Rightarrow> Inl Undefined
                        | Some (r, m') \<Rightarrow>
                            if length (parsing st) < 2 then Inl Undefined
                            else Inr \<lparr>parsing = butlast (butlast (parsing st))
                                                  @ [\<lparr>lnk = p2, len = len2 + 1, ext = s ! nat i\<rparr>],
                                      z = z st - 1, marked = m'\<rparr>))
               else if p1 \<noteq> -1 then
                 Inr \<lparr>parsing = butlast (parsing st) @ [\<lparr>lnk = p1, len = len1 + 1, ext = s ! nat i\<rparr>],
                      z = z st, marked = marked st\<rparr>
               else
                 (case insert marked_capacity (marked st) isa_last (z st) of
                    None \<Rightarrow> Inl Undefined
                  | Some m' \<Rightarrow>
                      Inr \<lparr>parsing = parsing st @ [\<lparr>lnk = 0, len = 1, ext = s ! nat i\<rparr>],
                           z = z st + 1, marked = m'\<rparr>))"

text \<open>\<open>for(Index i = 1; i < n; i++)\<close>, over the list of the remaining positions.\<close>

fun parse_loop :: "string \<Rightarrow> env \<Rightarrow> state \<Rightarrow> int list \<Rightarrow> error + state" where
  "parse_loop s e st [] = Inr st"
| "parse_loop s e st (i # is) =
     (case parse_step s e st i of Inl err \<Rightarrow> Inl err | Inr st' \<Rightarrow> parse_loop s e st' is)"

text \<open>The permuted inverse suffix array: \<open>isa[n-sa[i]-1] = i\<close> for \<open>i = 0 .. n-1\<close>, written
  into the array that held \<open>PLCP\<close>.\<close>

definition permuted_isa :: "nat list \<Rightarrow> int list \<Rightarrow> int list" where
  "permuted_isa sa plcp = foldl (\<lambda>a i. a[length sa - sa ! i - 1 := int i]) plcp [0..<length sa]"

text \<open>
  \<open>parse\<close>. The length of the input is converted to \<open>Index\<close>, that is reduced to 32 bits and
  read as a signed number. \<open>std::make_unique<Index[]>(n)\<close> with a negative \<open>n\<close> asks for more
  than \<open>SIZE_MAX\<close> bytes and throws \<open>std::bad_array_new_length\<close>. The library calls read \<open>n\<close>
  bytes of the reversed input. \<open>s[0]\<close> of an empty \<open>std::string\<close> is the terminating zero.
\<close>

definition input_length :: "string \<Rightarrow> int" where
  "input_length s = sint (word_of_nat (length s) :: 32 word)"

text \<open>Everything before the main loop: the arrays, the RMQ and the permuted inverse suffix
  array.\<close>

definition prepare :: "string \<Rightarrow> error + env" where
  "prepare s =
     (let n = input_length s
      in if n < 0 then Inl Bad_array_new_length
         else
           let rs = take (nat n) (rev s);
               sa = suffix_array rs;
               lcp = lcp_array rs sa
           in case rmq_construct lcp of
                Inl err \<Rightarrow> Inl err
              | Inr r \<Rightarrow> Inr \<lparr>env_isa = permuted_isa sa (plcp_array sa lcp), env_lcp = lcp, env_rmq = r\<rparr>)"

text \<open>The state before the first iteration: \<open>parsing.push_back({0, 1, s[0]})\<close>, \<open>z = 0\<close>, and
  the empty map.\<close>

definition initial_state :: "string \<Rightarrow> state" where
  "initial_state s =
     \<lparr>parsing = [\<lparr>lnk = 0, len = 1, ext = (if s = [] then CHR 0x00 else s ! 0)\<rparr>], z = 0,
      marked = btree_empty\<rparr>"

definition parse :: "string \<Rightarrow> error + phrase list" where
  "parse s =
     (case prepare s of
        Inl err \<Rightarrow> Inl err
      | Inr e \<Rightarrow>
          (case parse_loop s e (initial_state s) [1..input_length s - 1] of
             Inl err \<Rightarrow> Inl err
           | Inr st \<Rightarrow> Inr (parsing st)))"

section \<open>Evaluation of the parser on concrete inputs\<close>

subsection \<open>Inputs of at most one block\<close>

lemma rmq_num_blocks_pos:
  assumes "0 < n" "n < 2 ^ 64"
  shows "rmq_num_blocks n = (n - 1) div 64 + 1"
proof -
  have n: "unat (word_of_nat n :: 64 word) = n"
    using assms by (simp add: unat_of_nat)
  have le: "(1 :: 64 word) \<le> word_of_nat n"
    using assms n by (simp add: word_le_nat_alt)
  have a: "unat ((word_of_nat n :: 64 word) - 1) = n - 1"
    using n by (simp add: unat_sub[OF le])
  have b: "unat (((word_of_nat n :: 64 word) - 1) div 64) = (n - 1) div 64"
    by (simp add: unat_div a)
  have "unat (((word_of_nat n :: 64 word) - 1) div 64) + unat (1 :: 64 word) < 2 ^ LENGTH(64)"
    using assms b by simp
  then have "unat (((word_of_nat n :: 64 word) - 1) div 64 + 1) = (n - 1) div 64 + 1"
    using b by (simp add: unat_add_lem[THEN iffD1])
  then show ?thesis by (simp add: rmq_num_blocks_def block_size_def)
qed

lemma rmq_num_blocks_0: "rmq_num_blocks 0 = 288230376151711744"
  by (simp add: rmq_num_blocks_def block_size_def)

lemma rmq_blocks_Nil_data: "0 < k \<Longrightarrow> rmq_blocks ([] :: 'a::linorder list) [0..<k] = None"
  by (subst upt_conv_Cons) (simp_all add: naive_rmq_def)

lemma rmq_construct_Nil: "rmq_construct ([] :: 'a::linorder list) = Inl Undefined"
proof -
  have "0 < rmq_num_blocks 0" by (simp add: rmq_num_blocks_0)
  then have "rmq_blocks ([] :: 'a list) [0..<rmq_num_blocks 0] = None"
    by (rule rmq_blocks_Nil_data)
  then show ?thesis by (simp add: rmq_construct_def)
qed

lemma bfc_construct_one: "bfc_construct [x] = None"
  by (simp add: bfc_construct_def bit_width.simps)

lemma rmq_blocks_length: "rmq_blocks data bs = Some pms \<Longrightarrow> length pms = length bs"
  by (induction bs arbitrary: pms) (auto simp: Let_def split: option.splits)

lemma rmq_construct_one_block:
  assumes "0 < length data" "length data \<le> 64"
  shows "rmq_construct data = Inl Undefined"
proof -
  have nb: "rmq_num_blocks (length data) = 1"
    using assms by (simp add: rmq_num_blocks_pos)
  show ?thesis
  proof (cases "rmq_blocks data [0..<1]")
    case None
    then show ?thesis by (simp add: rmq_construct_def nb)
  next
    case (Some pms)
    from rmq_blocks_length[OF Some] obtain pm where "pms = [pm]"
      by (cases pms) auto
    with Some show ?thesis by (simp add: rmq_construct_def nb bfc_construct_one)
  qed
qed

lemma length_lcp_array [simp]: "length (lcp_array t sa) = length t"
  by (simp add: lcp_array_def)

lemma prepare_one_block:
  assumes "0 < input_length s" "input_length s \<le> 64" "nat (input_length s) \<le> length s"
  shows "prepare s = Inl Undefined"
proof -
  have "rmq_construct (lcp_array (take (nat (input_length s)) (rev s))
          (suffix_array (take (nat (input_length s)) (rev s)))) = Inl Undefined"
    by (rule rmq_construct_one_block) (use assms in \<open>simp_all add: min_def\<close>)
  then show ?thesis using assms(1) by (simp add: prepare_def Let_def)
qed

lemma input_length_Nil: "input_length [] = 0"
  by (simp add: input_length_def)

lemma prepare_Nil: "prepare [] = Inl Undefined"
  by (simp add: prepare_def input_length_Nil suffix_array_def lcp_array_def rmq_construct_Nil)

subsection \<open>Maps with few keys\<close>

lemma predecessor_empty: "predecessor btree_empty x = Some None"
  by (simp add: predecessor_def btree_empty_def predecessor_from.simps ls_predecessor_def
      node_keys_def is_leaf_def)

lemma successor_empty: "successor btree_empty x = Some None"
  by (simp add: successor_def btree_empty_def successor_from.simps ls_successor_def
      node_keys_def is_leaf_def)





lemma insert_empty:
  "0 < cap \<Longrightarrow> insert cap btree_empty k v = Some \<lparr>tsize = 1, root = Node [(k, v)] []\<rparr>"
  by (simp add: insert_def btree_empty_def is_full_def node_size_def node_insert.simps is_leaf_def
      ls_insert_def insert_key_def)




subsection \<open>The input \<open>"aa"\<close>\<close>

lemma suffix_array_aa: "suffix_array (rev ''aa'') = [Suc 0, 0]"
  by code_simp

lemma lcp_array_aa: "lcp_array (rev ''aa'') [Suc 0, 0] = [0, 1]"
  by code_simp

lemma input_length_aa: "input_length ''aa'' = 2"
  by (simp add: input_length_def)

lemma permuted_isa_aa: "permuted_isa [Suc 0, 0] (plcp_array [Suc 0, 0] [0, 1]) = [0, 1]"
  by code_simp

lemma upto_1_1: "[1..(1::int)] = [1]"
  by (simp add: upto.simps)

lemma loop_aa:
  "parse_loop ''aa'' \<lparr>env_isa = [0, 1], env_lcp = lcp, env_rmq = r\<rparr> (initial_state ''aa'') [1..1]
   = Inr \<lparr>parsing = [\<lparr>lnk = 0, len = 1, ext = CHR ''a''\<rparr>, \<lparr>lnk = 0, len = 1, ext = CHR ''a''\<rparr>],
          z = 1, marked = \<lparr>tsize = 1, root = Node [(0, 0)] []\<rparr>\<rparr>"
  by (simp add: upto_1_1 initial_state_def parse_step_def copy_sources_def find_copy_source_def
      lex_smaller_phrase_def lex_greater_phrase_def predecessor_empty successor_empty
      insert_empty marked_capacity_def Let_def)

subsection \<open>An input of 65 bytes\<close>

definition s65 :: string where
  "s65 = ''abaaaadefghijklmnopqrstuvwxyzABCDEFGHIJKLMNOPQRSTUVWXYZ0123456789''"

definition sa65 :: "nat list" where
  "sa65 = [9, 8, 7, 6, 5, 4, 3, 2, 1, 0, 35, 34, 33, 32, 31, 30, 29, 28, 27, 26, 25, 24,
          23, 22, 21, 20, 19, 18, 17, 16, 15, 14, 13, 12, 11, 10, 64, 59, 60, 61, 62, 63,
          58, 57, 56, 55, 54, 53, 52, 51, 50, 49, 48, 47, 46, 45, 44, 43, 42, 41, 40, 39,
          38, 37, 36]"

definition lcp65 :: "int list" where
  "lcp65 = [0, 0, 0, 0, 0, 0, 0, 0, 0, 0, 0, 0, 0, 0, 0, 0, 0, 0, 0, 0, 0, 0, 0, 0, 0, 0,
           0, 0, 0, 0, 0, 0, 0, 0, 0, 0, 0, 1, 3, 2, 1, 0, 0, 0, 0, 0, 0, 0, 0, 0, 0, 0,
           0, 0, 0, 0, 0, 0, 0, 0, 0, 0, 0, 0, 0]"

definition isa65 :: "int list" where
  "isa65 = [36, 41, 40, 39, 38, 37, 42, 43, 44, 45, 46, 47, 48, 49, 50, 51, 52, 53, 54, 55,
           56, 57, 58, 59, 60, 61, 62, 63, 64, 10, 11, 12, 13, 14, 15, 16, 17, 18, 19, 20,
           21, 22, 23, 24, 25, 26, 27, 28, 29, 30, 31, 32, 33, 34, 35, 0, 1, 2, 3, 4, 5,
           6, 7, 8, 9]"

definition rmq65 :: "int rmq" where
  "rmq65 = \<lparr>rmq_data = lcp65, block_min_pos = [0, 64], block_min = [0, 0],
            block_rmq = \<lparr>bfc_data = [0, 0], bfc_levels = [[0]]\<rparr>\<rparr>"

definition env65 :: env where
  "env65 = \<lparr>env_isa = isa65, env_lcp = lcp65, env_rmq = rmq65\<rparr>"



lemma suffix_array_s65: "suffix_array (rev s65) = sa65"
  unfolding s65_def sa65_def by code_simp

lemma lcp_array_s65: "lcp_array (rev s65) sa65 = lcp65"
  unfolding s65_def sa65_def lcp65_def by code_simp

lemma permuted_isa_s65: "permuted_isa sa65 (plcp_array sa65 lcp65) = isa65"
  unfolding sa65_def lcp65_def isa65_def by code_simp

lemma rmq_blocks_65: "rmq_blocks lcp65 [0..<2] = Some [(0, 0), (64, 0)]"
  by (simp add: lcp65_def upt_conv_Cons naive_rmq_def naive_rmq_loop.simps u32_def block_size_def)

lemma bfc_construct_two: "bfc_construct [0, 0 :: int] = Some \<lparr>bfc_data = [0, 0], bfc_levels = [[0]]\<rparr>"
  by (simp add: bfc_construct_def bit_width.simps bfc_first_level_def)

lemma rmq_construct_65: "rmq_construct lcp65 = Inr rmq65"
proof -
  have "length lcp65 = 65" by (simp add: lcp65_def)
  then have "rmq_num_blocks (length lcp65) = 2" by (simp add: rmq_num_blocks_pos)
  then show ?thesis
    by (simp add: rmq_construct_def rmq_blocks_65 bfc_construct_two rmq65_def)
qed










section \<open>The claims\<close>

subsection \<open>The parser on short inputs\<close>

text \<open>
  C1, at the input \<open>"a"\<close>: the claim promises the phrase list \<open>[(0, 1, 'a')]\<close>. The LCP array
  has one element, the RMQ has one block, and the constructor of the sparse table over the
  block minima stores \<open>rmq_[0]\<close> into an array of \<open>bit_width(1) - 1 = 0\<close> levels. The same
  happens for every input of 1 to 64 bytes (\<open>prepare_one_block\<close>).
\<close>

theorem C1_one_byte: "parse ''a'' = Inl Undefined"
proof -
  have "input_length ''a'' = 1" by (simp add: input_length_def)
  then have "prepare ''a'' = Inl Undefined" by (intro prepare_one_block) simp_all
  then show ?thesis by (simp add: parse_def)
qed

text \<open>
  C2, at an array of three elements: the claim promises a structure that answers \<open>rmq(i, j)\<close>
  for \<open>i \<le> j < 3\<close>. The constructor does not complete: there is one block, and the sparse
  table over the block minima stores \<open>rmq_[0]\<close> into an array of \<open>0\<close> levels. The same happens
  for every array of 1 to 64 elements (\<open>rmq_construct_one_block\<close>).
\<close>

theorem C2_one_block: "rmq_construct [5, 3, 8 :: int] = Inl Undefined"
  by (rule rmq_construct_one_block) simp_all

subsection \<open>The two candidate searches\<close>




subsection \<open>The input \<open>"aa"\<close>\<close>

text \<open>
  C6, as stated: for the input \<open>"aa"\<close>, \<open>parse\<close> returns \<open>[(0, 1, 'a'), (0, 2, 'a')]\<close>, the
  second byte extending the last phrase. Neither \<open>parse\<close> nor its main loop, run on the
  permuted inverse suffix array \<open>[0, 1]\<close> of \<open>"aa"\<close>, gives that list.
\<close>

theorem C6_counterexample:
  "parse ''aa'' \<noteq> Inr [\<lparr>lnk = 0, len = 1, ext = CHR ''a''\<rparr>, \<lparr>lnk = 0, len = 2, ext = CHR ''a''\<rparr>]
   \<and> map_sum id parsing
        (parse_loop ''aa''
           \<lparr>env_isa = [0, 1], env_lcp = [0, 1],
            env_rmq = \<lparr>rmq_data = [0, 1], block_min_pos = [0], block_min = [0],
                       block_rmq = \<lparr>bfc_data = [0], bfc_levels = []\<rparr>\<rparr>\<rparr>
           (initial_state ''aa'') [1..1])
      \<noteq> Inr [\<lparr>lnk = 0, len = 1, ext = CHR ''a''\<rparr>, \<lparr>lnk = 0, len = 2, ext = CHR ''a''\<rparr>]"
proof -
  have "prepare ''aa'' = Inl Undefined"
    by (intro prepare_one_block) (simp_all add: input_length_aa)
  then have "parse ''aa'' = Inl Undefined"
    by (simp add: parse_def)
  then show ?thesis
    unfolding loop_aa by simp
qed

text \<open>
  C6, amended: for the input \<open>"aa"\<close>, the main loop of \<open>parse\<close> produces exactly the phrase list
  \<open>[(0, 1, 'a'), (0, 1, 'a')]\<close> with \<open>z = 1\<close>, i.e. the second character starts a new literal
  phrase: at \<open>i = 1\<close> the map \<open>marked\<close> is empty, both searches return the candidate of length
  \<open>0 < len1\<close>, and \<open>isa_last = 0\<close> is marked with phrase \<open>0\<close>. The loop consults neither the
  LCP array nor the RMQ here, so the statement is for any; \<open>[0, 1]\<close> is the permuted inverse
  suffix array of \<open>"aa"\<close>.
\<close>

theorem C6_loop_aa:
  "permuted_isa (suffix_array (rev ''aa''))
     (plcp_array (suffix_array (rev ''aa'')) (lcp_array (rev ''aa'') (suffix_array (rev ''aa''))))
   = [0, 1]
   \<and> parse_loop ''aa'' \<lparr>env_isa = [0, 1], env_lcp = lcp, env_rmq = r\<rparr> (initial_state ''aa'')
        [1..input_length ''aa'' - 1]
     = Inr \<lparr>parsing = [\<lparr>lnk = 0, len = 1, ext = CHR ''a''\<rparr>, \<lparr>lnk = 0, len = 1, ext = CHR ''a''\<rparr>],
            z = 1, marked = \<lparr>tsize = 1, root = Node [(0, 0)] []\<rparr>\<rparr>"
proof -
  have a: "permuted_isa (suffix_array (rev ''aa''))
             (plcp_array (suffix_array (rev ''aa''))
                (lcp_array (rev ''aa'') (suffix_array (rev ''aa'')))) = [0, 1]"
    unfolding suffix_array_aa lcp_array_aa by (rule permuted_isa_aa)
  have "input_length ''aa'' - 1 = 1"
    by (simp add: input_length_aa)
  then have b: "parse_loop ''aa'' \<lparr>env_isa = [0, 1], env_lcp = lcp, env_rmq = r\<rparr>
                  (initial_state ''aa'') [1..input_length ''aa'' - 1]
                = Inr \<lparr>parsing = [\<lparr>lnk = 0, len = 1, ext = CHR ''a''\<rparr>,
                                    \<lparr>lnk = 0, len = 1, ext = CHR ''a''\<rparr>],
                       z = 1, marked = \<lparr>tsize = 1, root = Node [(0, 0)] []\<rparr>\<rparr>"
    using loop_aa[of lcp r] by (simp only:)
  from a b show ?thesis by (rule conjI)
qed

subsection \<open>The empty input\<close>

text \<open>
  C7, at the empty input: the claim promises an empty phrase list. \<open>parse\<close> has no branch for
  \<open>n = 0\<close>: the constructor of the RMQ computes \<open>(n - 1) / 64 + 1\<close> blocks in \<open>size_t\<close>, which
  is \<open>2 ^ 58\<close> for \<open>n = 0\<close> (\<open>rmq_num_blocks_0\<close>), and the scan of block \<open>0\<close> starts by reading
  \<open>data_[0]\<close> of the empty LCP array.
\<close>

theorem C7_empty_input: "parse [] = Inl Undefined"
  by (simp add: parse_def prepare_Nil)

subsection \<open>Inputs of \<open>2 ^ 31\<close> bytes and more\<close>

text \<open>
  C8, at an input of \<open>2 ^ 32 + 65\<close> bytes, \<open>2 ^ 32\<close> times \<open>a\<close> followed by \<open>s65\<close>: the claim
  promises that \<open>parse\<close> refuses it before it constructs anything. The length is narrowed to
  \<open>Index\<close>, which gives \<open>65\<close>, and nothing compares it with the length of the string: the suffix
  array, the LCP array, the RMQ and the permuted inverse suffix array are constructed, for the
  last \<open>65\<close> bytes of the input.
\<close>

theorem C8_long_input:
  "length (replicate 4294967296 (CHR ''a'') @ s65) = 2 ^ 32 + 65
   \<and> input_length (replicate 4294967296 (CHR ''a'') @ s65) = 65
   \<and> prepare (replicate 4294967296 (CHR ''a'') @ s65) = Inr env65"
proof -
  have l: "length (replicate 4294967296 (CHR ''a'') @ s65) = 4294967361"
    by (simp add: s65_def)
  have n: "input_length (replicate 4294967296 (CHR ''a'') @ s65) = 65"
    unfolding input_length_def l by simp
  have nat65: "nat (65 :: int) = 65" by simp
  have "length (rev s65) = 65" by (simp add: s65_def)
  then have t: "take 65 (rev (replicate 4294967296 (CHR ''a'') @ s65)) = rev s65"
    by simp
  have "prepare (replicate 4294967296 (CHR ''a'') @ s65) = Inr env65"
    unfolding prepare_def n Let_def nat65 t suffix_array_s65 lcp_array_s65 rmq_construct_65
      permuted_isa_s65
    by (simp add: env65_def)
  with l n show ?thesis by simp
qed

subsection \<open>The empty map\<close>



end
